theory Spec2Isabelle
  imports Complex_Main "HOL-Library.AList"
begin

section \<open>Data model of \<open>app/movie_service.py\<close>\<close>

text \<open>
  A value stored in a document or passed to a result record. Python's \<open>int\<close> and
  \<open>float\<close> are both read as a real number: rounding, infinities and NaN of IEEE
  doubles are not part of this model. \<open>VOid\<close> is a BSON ObjectId, \<open>VNull\<close> is \<open>None\<close>.
\<close>

datatype val = VNull | VNum real | VStr string | VList "val list" | VOid string

text \<open>A document returned by the store is a Python dict from field names to values.\<close>

type_synonym doc = "string \<rightharpoonup> val"

text \<open>
  The exceptions of the model. \<open>ValidationError\<close> is pydantic's, raised by a model
  constructor whose arguments do not fit the declared field types.
\<close>

datatype error =
    KeyError string
  | TypeError
  | ValueError string
  | ValidationError
  | StoreFailure string

text \<open>\<open>class SearchQuery(BaseModel)\<close>; every field but \<open>query\<close> is \<open>Optional\<close>.\<close>

record SearchQuery =
  query :: string
  top_k :: "int option"
  year_gt :: "int option"
  genre :: "string option"
  type :: "string option"

text \<open>
  \<open>class SearchResult(BaseModel)\<close>, a record that has passed validation. A field holds a
  value of its declared type: a string, \<open>None\<close>, a list of strings or a number.
  \<open>id_field\<close> is the field \<open>id\<close> (alias \<open>_id\<close>), which the source always fills with
  a string.
\<close>

record SearchResult =
  id_field :: string
  title :: val
  fullplot :: val
  writers :: val
  cast :: val
  rated :: val
  genres :: val
  year :: val
  score :: val

subsection \<open>Pipelines\<close>

text \<open>
  The dict \<open>filters\<close>: key \<open>"year"\<close> maps to \<open>{"$gt": y}\<close>, key \<open>"genres"\<close> maps to
  the genre string. Insertion order is kept.
\<close>

datatype filter_value = Gt int | Equals string

type_synonym filters = "(string \<times> filter_value) list"

text \<open>
  One pipeline stage, a dict with a single operator key, or the empty dict \<open>{}\<close>:
  \<^item> \<open>VectorSearch index path filter queryVector numCandidates limit\<close>
  \<^item> \<open>Search index query path maxEdits\<close>
  \<^item> \<open>Match filters\<close>
  \<^item> \<open>Project fields meta\<close>: the fields set to 1 and the \<open>$meta\<close> source of \<open>score\<close>
  \<^item> \<open>Limit n\<close>
  \<^item> \<open>EmptyStage\<close>: \<open>{}\<close>
\<close>

datatype stage =
    VectorSearch string string filters "real list" int int
  | Search string string "string list" int
  | Match filters
  | Project "string list" string
  | Limit int
  | EmptyStage

text \<open>Truthiness of a stage dict: only \<open>{}\<close> is falsy.\<close>

fun truthy_stage :: "stage \<Rightarrow> bool" where
  "truthy_stage EmptyStage = False"
| "truthy_stage _ = True"

fun is_match :: "stage \<Rightarrow> bool" where
  "is_match (Match _) = True"
| "is_match _ = False"

text \<open>Truthiness of \<open>query.year_gt\<close> and \<open>query.genre\<close>: \<open>None\<close>, \<open>0\<close> and \<open>""\<close> are falsy.\<close>

fun truthy_int :: "int option \<Rightarrow> bool" where
  "truthy_int None = False"
| "truthy_int (Some n) = (n \<noteq> 0)"

fun truthy_str :: "string option \<Rightarrow> bool" where
  "truthy_str None = False"
| "truthy_str (Some s) = (s \<noteq> [])"

text \<open>Lines 51 to 55 of \<open>build_pipeline\<close>: the dict \<open>filters\<close>.\<close>

definition build_filters :: "SearchQuery \<Rightarrow> filters" where
  "build_filters q =
     (if truthy_int (year_gt q) then [(''year'', Gt (the (year_gt q)))] else []) @
     (if truthy_str (genre q) then [(''genres'', Equals (the (genre q)))] else [])"

definition display_fields :: "string list" where
  "display_fields =
     [''_id'', ''title'', ''fullplot'', ''writers'', ''cast'', ''rated'', ''genres'', ''year'']"

text \<open>
  \<open>build_pipeline\<close>. Both pipelines are built before the mode is looked at, so
  \<open>query.top_k * 20\<close> raises \<open>TypeError\<close> for \<open>top_k = None\<close> whatever the mode is.
\<close>

definition build_pipeline :: "SearchQuery \<Rightarrow> real list \<Rightarrow> error + stage list" where
  "build_pipeline q embedding =
     (let filters = build_filters q in
      case top_k q of
        None \<Rightarrow> Inl TypeError
      | Some k \<Rightarrow>
          (let vector_pipeline =
                 [VectorSearch ''vector_index'' ''embedding'' filters embedding (k * 20) k,
                  Project display_fields ''vectorSearchScore''];
               text_pipeline =
                 [Search ''default'' (query q) [''fullplot'', ''genres'', ''title''] 2,
                  (if filters \<noteq> [] then Match filters else EmptyStage),
                  Project display_fields ''searchScore'',
                  Limit k]
           in if type q = Some ''vector'' then Inr vector_pipeline
              else if type q = Some ''text'' then Inr (filter truthy_stage text_pipeline)
              else Inl (ValueError ''Invalid search type'')))"

subsection \<open>Score normalisation\<close>

text \<open>\<open>d.get(k, default)\<close> on a dict.\<close>

definition py_get :: "doc \<Rightarrow> string \<Rightarrow> val \<Rightarrow> val" where
  "py_get d k dflt = (case d k of None \<Rightarrow> dflt | Some v \<Rightarrow> v)"

fun is_num :: "val \<Rightarrow> bool" where
  "is_num (VNum _) = True"
| "is_num _ = False"

fun num_of :: "val \<Rightarrow> real" where
  "num_of (VNum x) = x"
| "num_of _ = 0"

text \<open>A list is the one value of this model that cannot be a dict key.\<close>

fun hashable :: "val \<Rightarrow> bool" where
  "hashable (VList _) = False"
| "hashable _ = True"

text \<open>
  The dict \<open>normalized\<close>, from a document identity to \<open>{"doc": doc, "score": s}\<close>
  (here the pair \<open>(doc, s)\<close>), in insertion order; assigning to a key that is present
  replaces the value in place, as \<open>AList.update\<close> does.
\<close>

type_synonym scored = "(val \<times> (doc \<times> real)) list"

definition epsilon :: real where
  "epsilon = 1 / 1000000"

text \<open>
  \<open>doc.get(score_field, 0.0)\<close> read as a number (line 176); the loop runs only once
  every score is known to be one.
\<close>

definition raw_score :: "doc \<Rightarrow> string \<Rightarrow> real" where
  "raw_score d score_field = num_of (py_get d score_field (VNum 0))"

text \<open>The loop of lines 174 to 178.\<close>

fun normalize_loop :: "doc list \<Rightarrow> string \<Rightarrow> real \<Rightarrow> real \<Rightarrow> scored \<Rightarrow> error + scored" where
  "normalize_loop [] score_field min_score range_score normalized = Inr normalized"
| "normalize_loop (d # rest) score_field min_score range_score normalized =
     (case d ''_id'' of
        None \<Rightarrow> Inl (KeyError ''_id'')
      | Some doc_id \<Rightarrow>
          (let normalized_score = (raw_score d score_field - min_score) / range_score
           in if \<not> hashable doc_id then Inl TypeError
              else normalize_loop rest score_field min_score range_score
                     (AList.update doc_id (d, normalized_score) normalized)))"

text \<open>
  \<open>normalize_scores\<close>. A score that is not a number makes \<open>min\<close>, \<open>max\<close> or the
  subtraction of line 171 raise \<open>TypeError\<close> before the loop starts.
\<close>

definition normalize_scores :: "doc list \<Rightarrow> string \<Rightarrow> error + scored" where
  "normalize_scores results score_field =
     (if results = [] then Inr []
      else
        (let scores = map (\<lambda>r. py_get r score_field (VNum 0)) results in
         if \<not> list_all is_num scores then Inl TypeError
         else
           (let min_score = Min (set (map num_of scores));
                max_score = Max (set (map num_of scores));
                range_score = max_score - min_score + epsilon
            in normalize_loop results score_field min_score range_score [])))"

text \<open>
  The smallest and the largest raw score of a result set, a missing score counting
  as 0, as the specification of the normaliser names them.
\<close>

definition min_raw :: "doc list \<Rightarrow> string \<Rightarrow> real" where
  "min_raw results score_field = Min ((\<lambda>d. raw_score d score_field) ` set results)"

definition max_raw :: "doc list \<Rightarrow> string \<Rightarrow> real" where
  "max_raw results score_field = Max ((\<lambda>d. raw_score d score_field) ` set results)"

subsection \<open>Hybrid search\<close>

definition vector_weight :: real where
  "vector_weight = 0.6"

definition text_weight :: real where
  "text_weight = 0.4"

text \<open>
  The dict \<open>result_map\<close> has the shape of \<open>normalized\<close>. First loop (lines 120, 121):
  every vector entry is stored with its score scaled by the vector weight.
\<close>

fun merge_vector :: "scored \<Rightarrow> scored \<Rightarrow> scored" where
  "merge_vector [] result_map = result_map"
| "merge_vector ((i, v) # rest) result_map =
     merge_vector rest (AList.update i (fst v, snd v * vector_weight) result_map)"

text \<open>
  Second loop (lines 124 to 128): a text entry whose identity is present adds its
  weighted score to the entry, leaving the document alone; otherwise it is inserted.
\<close>

fun merge_text :: "scored \<Rightarrow> scored \<Rightarrow> scored" where
  "merge_text [] result_map = result_map"
| "merge_text ((i, t) # rest) result_map =
     merge_text rest
       (case map_of result_map i of
          Some (d, s) \<Rightarrow> AList.update i (d, s + snd t * text_weight) result_map
        | None \<Rightarrow> AList.update i (fst t, snd t * text_weight) result_map)"

definition merge_results :: "scored \<Rightarrow> scored \<Rightarrow> scored" where
  "merge_results vector_scores text_scores = merge_text text_scores (merge_vector vector_scores [])"

text \<open>
  \<open>sorted(result_map.values(), key=lambda x: x["score"], reverse=True)\<close>: Python's sort
  is stable, also with \<open>reverse=True\<close>, so entries of equal score keep the order of
  \<open>result_map\<close>. \<open>sort_key\<close> is a stable ascending sort; on the negated score it is the
  stable descending sort.
\<close>

definition sort_by_score :: "(doc \<times> real) list \<Rightarrow> (doc \<times> real) list" where
  "sort_by_score entries = sort_key (\<lambda>x. - snd x) entries"

text \<open>The slice \<open>xs[:k]\<close>: \<open>None\<close> keeps everything, a negative \<open>k\<close> counts from the end.\<close>

fun py_slice_to :: "'a list \<Rightarrow> int option \<Rightarrow> 'a list" where
  "py_slice_to xs None = xs"
| "py_slice_to xs (Some k) =
     (if 0 \<le> k then take (nat k) xs else take (length xs - nat (- k)) xs)"

text \<open>
  The validation that \<open>SearchResult(...)\<close> runs on its keyword arguments, field by
  field, for the types declared in lines 26 to 34, in pydantic's default mode: a value
  of the declared type is kept, \<open>None\<close> is kept in an \<open>Optional\<close> field, a number without
  fractional part is an \<open>int\<close>, and where a number is declared a string is parsed.
  The two parsers are library code and parameters of the model. Every other value is
  refused. \<open>None\<close> as the result means that the field is in error.
\<close>

fun is_str :: "val \<Rightarrow> bool" where
  "is_str (VStr _) = True"
| "is_str _ = False"

text \<open>\<open>title: str\<close>, \<open>fullplot: str\<close>.\<close>

fun validate_str :: "val \<Rightarrow> val option" where
  "validate_str (VStr s) = Some (VStr s)"
| "validate_str _ = None"

text \<open>\<open>rated: Optional[str]\<close>.\<close>

fun validate_optional_str :: "val \<Rightarrow> val option" where
  "validate_optional_str VNull = Some VNull"
| "validate_optional_str (VStr s) = Some (VStr s)"
| "validate_optional_str _ = None"

text \<open>\<open>writers\<close>, \<open>cast\<close>, \<open>genres\<close>: \<open>Optional[List[str]]\<close>.\<close>

fun validate_optional_str_list :: "val \<Rightarrow> val option" where
  "validate_optional_str_list VNull = Some VNull"
| "validate_optional_str_list (VList xs) = (if list_all is_str xs then Some (VList xs) else None)"
| "validate_optional_str_list _ = None"

text \<open>\<open>year: Optional[int]\<close>.\<close>

fun validate_optional_int :: "(string \<Rightarrow> int option) \<Rightarrow> val \<Rightarrow> val option" where
  "validate_optional_int str_to_int VNull = Some VNull"
| "validate_optional_int str_to_int (VNum x) =
     (if x = of_int \<lfloor>x\<rfloor> then Some (VNum x) else None)"
| "validate_optional_int str_to_int (VStr s) =
     (case str_to_int s of None \<Rightarrow> None | Some n \<Rightarrow> Some (VNum (of_int n)))"
| "validate_optional_int str_to_int _ = None"

text \<open>\<open>score: float\<close>.\<close>

fun validate_float :: "(string \<Rightarrow> real option) \<Rightarrow> val \<Rightarrow> val option" where
  "validate_float str_to_float (VNum x) = Some (VNum x)"
| "validate_float str_to_float (VStr s) =
     (case str_to_float s of None \<Rightarrow> None | Some x \<Rightarrow> Some (VNum x))"
| "validate_float str_to_float _ = None"

text \<open>
  The \<open>SearchResult(...)\<close> call of lines 133 to 143 and 153 to 163, for a document and
  the value passed as \<open>score\<close>: the arguments are read from the document, then
  validated; one field in error makes the call raise \<open>ValidationError\<close>. \<open>_id\<close> is
  passed as \<open>str(...)\<close>, which the type \<open>Optional[str]\<close> accepts as it is. \<open>py_str\<close> is
  Python's \<open>str\<close>, a parameter of the model.
\<close>

definition make_result ::
  "(val \<Rightarrow> string) \<Rightarrow> (string \<Rightarrow> int option) \<Rightarrow> (string \<Rightarrow> real option) \<Rightarrow> doc \<Rightarrow> val
     \<Rightarrow> error + SearchResult" where
  "make_result py_str str_to_int str_to_float d sc =
     (case validate_str (py_get d ''title'' (VStr [])) of None \<Rightarrow> Inl ValidationError | Some t \<Rightarrow>
      case validate_str (py_get d ''fullplot'' (VStr [])) of None \<Rightarrow> Inl ValidationError | Some p \<Rightarrow>
      case validate_optional_str_list (py_get d ''genres'' (VList [])) of
        None \<Rightarrow> Inl ValidationError | Some g \<Rightarrow>
      case validate_optional_int str_to_int (py_get d ''year'' VNull) of
        None \<Rightarrow> Inl ValidationError | Some y \<Rightarrow>
      case validate_float str_to_float sc of None \<Rightarrow> Inl ValidationError | Some s \<Rightarrow>
      case validate_optional_str_list (py_get d ''writers'' (VList [])) of
        None \<Rightarrow> Inl ValidationError | Some w \<Rightarrow>
      case validate_optional_str_list (py_get d ''cast'' (VList [])) of
        None \<Rightarrow> Inl ValidationError | Some c \<Rightarrow>
      case validate_optional_str (py_get d ''rated'' (VStr [])) of
        None \<Rightarrow> Inl ValidationError | Some r \<Rightarrow>
        Inr \<lparr> id_field = py_str (py_get d ''_id'' VNull),
              title = t, fullplot = p, writers = w, cast = c, rated = r,
              genres = g, year = y, score = s \<rparr>)"

text \<open>
  A list comprehension \<open>[SearchResult(...) for x in xs]\<close>: the records in order, or the
  error of the first call that raises.
\<close>

fun collect_results :: "('a \<Rightarrow> error + SearchResult) \<Rightarrow> 'a list \<Rightarrow> error + SearchResult list" where
  "collect_results f [] = Inr []"
| "collect_results f (x # xs) =
     (case f x of
        Inl e \<Rightarrow> Inl e
      | Inr r \<Rightarrow> (case collect_results f xs of Inl e \<Rightarrow> Inl e | Inr rs \<Rightarrow> Inr (r # rs)))"

text \<open>Lines 109 to 131: the merged entries, sorted, before truncation.\<close>

definition hybrid_ranked :: "doc list \<Rightarrow> doc list \<Rightarrow> error + (doc \<times> real) list" where
  "hybrid_ranked vector_results text_results =
     (case normalize_scores vector_results ''score'' of
        Inl e \<Rightarrow> Inl e
      | Inr vector_scores \<Rightarrow>
          (case normalize_scores text_results ''score'' of
             Inl e \<Rightarrow> Inl e
           | Inr text_scores \<Rightarrow>
               Inr (sort_by_score (map snd (merge_results vector_scores text_scores)))))"

text \<open>Lines 109 to 143: what \<open>hybrid_search\<close> does with the two result lists.\<close>

definition hybrid_merge ::
  "(val \<Rightarrow> string) \<Rightarrow> (string \<Rightarrow> int option) \<Rightarrow> (string \<Rightarrow> real option)
     \<Rightarrow> doc list \<Rightarrow> doc list \<Rightarrow> int option \<Rightarrow> error + SearchResult list" where
  "hybrid_merge py_str str_to_int str_to_float vector_results text_results k =
     (case hybrid_ranked vector_results text_results of
        Inl e \<Rightarrow> Inl e
      | Inr sorted_docs \<Rightarrow>
          collect_results
            (\<lambda>d. make_result py_str str_to_int str_to_float (fst d) (VNum (snd d)))
            (py_slice_to sorted_docs k))"

text \<open>
  The document store: \<open>collection.aggregate\<close> maps a pipeline to the documents it
  returns or to the error it raises. Every function that talks to the store returns,
  next to its result, the list of pipelines it has sent, in order.
\<close>

type_synonym store = "stage list \<Rightarrow> error + doc list"

definition hybrid_search ::
  "store \<Rightarrow> (val \<Rightarrow> string) \<Rightarrow> (string \<Rightarrow> int option) \<Rightarrow> (string \<Rightarrow> real option)
     \<Rightarrow> SearchQuery \<Rightarrow> real list \<Rightarrow> (error + SearchResult list) \<times> stage list list" where
  "hybrid_search aggregate py_str str_to_int str_to_float q embedding =
     (case build_pipeline (q\<lparr>type := Some ''vector''\<rparr>) embedding of
        Inl e \<Rightarrow> (Inl e, [])
      | Inr vector_pipeline \<Rightarrow>
     (case build_pipeline (q\<lparr>type := Some ''text''\<rparr>) embedding of
        Inl e \<Rightarrow> (Inl e, [])
      | Inr text_pipeline \<Rightarrow>
     (case aggregate vector_pipeline of
        Inl e \<Rightarrow> (Inl e, [vector_pipeline])
      | Inr vector_results \<Rightarrow>
     (case aggregate text_pipeline of
        Inl e \<Rightarrow> (Inl e, [vector_pipeline, text_pipeline])
      | Inr text_results \<Rightarrow>
          (hybrid_merge py_str str_to_int str_to_float vector_results text_results (top_k q),
           [vector_pipeline, text_pipeline])))))"

text \<open>
  \<open>search_documents\<close>. \<open>generate_embedding\<close> calls the embedding model, not the store;
  it is a parameter.
\<close>

definition search_documents ::
  "(string \<Rightarrow> real list) \<Rightarrow> store \<Rightarrow> (val \<Rightarrow> string) \<Rightarrow> (string \<Rightarrow> int option)
     \<Rightarrow> (string \<Rightarrow> real option) \<Rightarrow> SearchQuery
     \<Rightarrow> (error + SearchResult list) \<times> stage list list" where
  "search_documents generate_embedding aggregate py_str str_to_int str_to_float q =
     (let embedding = generate_embedding (query q) in
      if type q = Some ''hybrid''
      then hybrid_search aggregate py_str str_to_int str_to_float q embedding
      else
        (case build_pipeline q embedding of
           Inl e \<Rightarrow> (Inl e, [])
         | Inr pipeline \<Rightarrow>
             (case aggregate pipeline of
                Inl e \<Rightarrow> (Inl e, [pipeline])
              | Inr results \<Rightarrow>
                  (collect_results
                     (\<lambda>d. make_result py_str str_to_int str_to_float d
                            (py_get d ''score'' (VNum 0)))
                     results,
                   [pipeline]))))"

subsection \<open>Invariant of the score dicts\<close>

text \<open>Every entry of a score dict is filed under the \<open>_id\<close> of the document it holds.\<close>

definition keyed :: "scored \<Rightarrow> bool" where
  "keyed m = (\<forall>(i, d, s)\<in>set m. d ''_id'' = Some i)"

subsection \<open>Example inputs\<close>

text \<open>
  The scenario of the specification: the vector search returns A (0.9) and B (0.5), the
  text search returns B (0.8) and C (0.2). The two copies of B differ in their title, to
  tell which one a result was built from.
\<close>

definition vec_A :: doc where
  "vec_A = [''_id'' \<mapsto> VStr ''A'', ''score'' \<mapsto> VNum 0.9]"

definition vec_B :: doc where
  "vec_B = [''_id'' \<mapsto> VStr ''B'', ''score'' \<mapsto> VNum 0.5, ''title'' \<mapsto> VStr ''vector copy'']"

definition txt_B :: doc where
  "txt_B = [''_id'' \<mapsto> VStr ''B'', ''score'' \<mapsto> VNum 0.8, ''title'' \<mapsto> VStr ''text copy'']"

definition txt_C :: doc where
  "txt_C = [''_id'' \<mapsto> VStr ''C'', ''score'' \<mapsto> VNum 0.2]"

text \<open>Two documents whose raw scores differ by no more than the epsilon of the normaliser.\<close>

definition near_A :: doc where
  "near_A = [''_id'' \<mapsto> VStr ''A'', ''score'' \<mapsto> VNum 0]"

definition near_B :: doc where
  "near_B = [''_id'' \<mapsto> VStr ''B'', ''score'' \<mapsto> VNum (1 / 1000000)]"

text \<open>A document whose raw score is 2.\<close>

definition far_B :: doc where
  "far_B = [''_id'' \<mapsto> VStr ''B'', ''score'' \<mapsto> VNum 2]"

text \<open>A document without a score field.\<close>

definition bare_D :: doc where
  "bare_D = [''_id'' \<mapsto> VStr ''D'', ''title'' \<mapsto> VStr ''no score'']"

text \<open>A document without a score field whose year is not a number.\<close>

definition odd_D :: doc where
  "odd_D = [''_id'' \<mapsto> VStr ''D'', ''title'' \<mapsto> VStr ''no score'', ''year'' \<mapsto> VStr ''unknown'']"

text \<open>
  A store that answers a vector pipeline with A and B and any other pipeline with B
  and C, an embedding model, and \<open>str\<close> as it is on strings, ObjectIds and \<open>None\<close>.
  The examples apply it to nothing else; it renders numbers and lists like \<open>None\<close>.
\<close>

fun example_store :: store where
  "example_store (VectorSearch _ _ _ _ _ _ # _) = Inr [vec_A, vec_B]"
| "example_store _ = Inr [txt_B, txt_C]"

definition example_embedding :: "string \<Rightarrow> real list" where
  "example_embedding s = [1, 0]"

fun example_str :: "val \<Rightarrow> string" where
  "example_str (VStr s) = s"
| "example_str (VOid h) = h"
| "example_str _ = ''None''"

text \<open>
  The two parsers on strings of decimal digits, which they read as the number written.
  The examples pass them no string with a sign, a point, an exponent, blanks or
  underscores; such strings are refused here.
\<close>

definition is_digit :: "char \<Rightarrow> bool" where
  "is_digit c = (48 \<le> (of_char c :: nat) \<and> (of_char c :: nat) \<le> 57)"

definition digits_to_nat :: "string \<Rightarrow> nat" where
  "digits_to_nat s = foldl (\<lambda>n c. 10 * n + (of_char c - 48)) 0 s"

definition example_str_to_int :: "string \<Rightarrow> int option" where
  "example_str_to_int s =
     (if s \<noteq> [] \<and> list_all is_digit s then Some (int (digits_to_nat s)) else None)"

definition example_str_to_float :: "string \<Rightarrow> real option" where
  "example_str_to_float s =
     (case example_str_to_int s of None \<Rightarrow> None | Some n \<Rightarrow> Some (of_int n))"

definition example_query :: SearchQuery where
  "example_query =
     \<lparr> query = ''heist'', top_k = Some 2, year_gt = None, genre = None, type = Some ''hybrid'' \<rparr>"

section \<open>Properties\<close>

subsection \<open>The score normaliser\<close>

lemma update_entry:
  "e \<in> set (AList.update k v al) \<Longrightarrow> e = (k, v) \<or> e \<in> set al"
  by (induction al) (auto split: if_splits)

lemma normalize_loop_distinct:
  "normalize_loop rs f mn rg acc = Inr m \<Longrightarrow> distinct (map fst acc) \<Longrightarrow> distinct (map fst m)"
  by (induction rs arbitrary: acc) (auto split: option.splits if_splits simp: Let_def distinct_update)

lemma normalize_loop_entries:
  "normalize_loop rs f mn rg acc = Inr m \<Longrightarrow> (i, d, s) \<in> set m \<Longrightarrow>
     (i, d, s) \<in> set acc \<or>
     (d \<in> set rs \<and> d ''_id'' = Some i \<and> s = (raw_score d f - mn) / rg)"
proof (induction rs arbitrary: acc)
  case Nil
  then show ?case by simp
next
  case (Cons r rs)
  from Cons.prems(1) obtain j where j: "r ''_id'' = Some j" "hashable j"
    and rest: "normalize_loop rs f mn rg
                 (AList.update j (r, (raw_score r f - mn) / rg) acc) = Inr m"
    by (auto split: option.splits if_splits simp: Let_def)
  from Cons.IH [OF rest Cons.prems(2)] show ?case
    using j by (auto dest: update_entry)
qed

lemma normalize_loop_keys:
  "normalize_loop rs f mn rg acc = Inr m \<Longrightarrow>
     fst ` set m = fst ` set acc \<union> {i. \<exists>d\<in>set rs. d ''_id'' = Some i}"
proof (induction rs arbitrary: acc)
  case Nil
  then show ?case by simp
next
  case (Cons r rs)
  from Cons.prems(1) obtain j where j: "r ''_id'' = Some j" "hashable j"
    and rest: "normalize_loop rs f mn rg
                 (AList.update j (r, (raw_score r f - mn) / rg) acc) = Inr m"
    by (auto split: option.splits if_splits simp: Let_def)
  from Cons.IH [OF rest] show ?case
    using j by (auto simp: dom_update)
qed

lemma normalize_loop_total:
  "\<forall>d\<in>set rs. \<exists>i. d ''_id'' = Some i \<and> hashable i \<Longrightarrow>
     \<exists>m. normalize_loop rs f mn rg acc = Inr m"
  by (induction rs arbitrary: acc) (auto simp: Let_def)

lemma normalize_loop_other:
  "normalize_loop rs f mn rg acc = Inr m \<Longrightarrow> \<forall>d\<in>set rs. d ''_id'' \<noteq> Some i \<Longrightarrow>
     map_of m i = map_of acc i"
  by (induction rs arbitrary: acc)
     (auto split: option.splits if_splits simp: Let_def update_conv')

lemma normalize_loop_lookup:
  "normalize_loop rs f mn rg acc = Inr m \<Longrightarrow> distinct (map (\<lambda>d. d ''_id'') rs) \<Longrightarrow>
     d \<in> set rs \<Longrightarrow> d ''_id'' = Some i \<Longrightarrow>
     map_of m i = Some (d, (raw_score d f - mn) / rg)"
proof (induction rs arbitrary: acc)
  case Nil
  then show ?case by simp
next
  case (Cons r rs)
  from Cons.prems(1) obtain j where j: "r ''_id'' = Some j" "hashable j"
    and rest: "normalize_loop rs f mn rg
                 (AList.update j (r, (raw_score r f - mn) / rg) acc) = Inr m"
    by (auto split: option.splits if_splits simp: Let_def)
  show ?case
  proof (cases "d = r")
    case True
    with Cons.prems j have "\<forall>x\<in>set rs. x ''_id'' \<noteq> Some i" by (auto simp: image_iff)
    from normalize_loop_other [OF rest this] True j Cons.prems(4)
    show ?thesis by (simp add: update_conv')
  next
    case False
    with Cons.prems have "d \<in> set rs" "distinct (map (\<lambda>d. d ''_id'') rs)" by auto
    from Cons.IH [OF rest this(2) this(1) Cons.prems(4)] show ?thesis .
  qed
qed

lemma normalize_scores_loop:
  assumes "results \<noteq> []" "normalize_scores results f = Inr m"
  shows "normalize_loop results f (min_raw results f)
           (max_raw results f - min_raw results f + epsilon) [] = Inr m"
proof -
  have "set (map num_of (map (\<lambda>r. py_get r f (VNum 0)) results)) =
          (\<lambda>d. raw_score d f) ` set results"
    by (auto simp: raw_score_def)
  with assms show ?thesis
    by (simp add: normalize_scores_def min_raw_def max_raw_def Let_def split: if_splits)
qed

lemma raw_bounds:
  assumes "d \<in> set results"
  shows "min_raw results f \<le> raw_score d f" "raw_score d f \<le> max_raw results f"
  using assms by (simp_all add: min_raw_def max_raw_def)

lemma normalized_range:
  assumes "mn \<le> x" "x \<le> mx"
  shows "0 \<le> (x - mn) / (mx - mn + epsilon)" "(x - mn) / (mx - mn + epsilon) \<le> 1"
  using assms by (simp_all add: epsilon_def)

lemma normalized_mono:
  assumes "mn \<le> (mx::real)" "x \<le> mx"
  shows "(x - mn) / (mx - mn + epsilon) \<le> (mx - mn) / (mx - mn + epsilon)"
proof -
  have "0 < mx - mn + epsilon" using assms(1) by (simp add: epsilon_def)
  then show ?thesis using assms(2) by (simp add: divide_right_mono)
qed

lemma normalized_max_close:
  assumes "1 \<le> mx - (mn::real)"
  shows "1 - (mx - mn) / (mx - mn + epsilon) \<le> 1 / 1000000"
proof -
  have pos: "0 < mx - mn + epsilon" using assms by (simp add: epsilon_def)
  have "1 - (mx - mn) / (mx - mn + epsilon) = epsilon / (mx - mn + epsilon)"
    using pos by (simp add: field_simps)
  also have "\<dots> \<le> epsilon / 1"
    using assms by (intro divide_left_mono) (simp_all add: epsilon_def)
  finally show ?thesis by (simp add: epsilon_def)
qed

lemma normalize_loop_ids:
  "normalize_loop rs f mn rg acc = Inr m \<Longrightarrow> d \<in> set rs \<Longrightarrow>
     \<exists>i. d ''_id'' = Some i \<and> hashable i"
  by (induction rs arbitrary: acc) (auto split: option.splits if_splits simp: Let_def)

text \<open>CLAIM C8: normalising an empty result set returns the empty mapping and raises nothing.\<close>

theorem normalize_scores_empty: "normalize_scores [] score_field = Inr []"
  by (simp add: normalize_scores_def)

text \<open>
  CLAIM C2, as the code has it: for a non-empty result set that the normaliser accepts,
  every document has an entry under its identity; every entry holds a document of the
  input and the score \<open>(raw - min) / (max - min + 1e-6)\<close>, with min and max taken over
  the whole set; that score lies between 0 and 1; a document with the largest raw score
  has the largest score of the mapping, which is within \<open>1e-6\<close> of 1 when the raw scores
  spread over 1 or more; when all raw scores are equal every score is exactly 0. With
  pairwise distinct identities each document is found under its identity with its own
  score.
\<close>

theorem normalize_scores_formula:
  assumes "results \<noteq> []" and "normalize_scores results f = Inr m"
  shows "(\<forall>d\<in>set results. \<exists>i. d ''_id'' = Some i \<and> i \<in> fst ` set m) \<and>
         (\<forall>(i, d, s)\<in>set m.
             d \<in> set results \<and> d ''_id'' = Some i \<and>
             s = (raw_score d f - min_raw results f) /
                 (max_raw results f - min_raw results f + 1 / 1000000) \<and>
             0 \<le> s \<and> s \<le> 1 \<and>
             (raw_score d f = max_raw results f \<longrightarrow>
                (\<forall>(i', d', s')\<in>set m. s' \<le> s) \<and>
                (1 \<le> max_raw results f - min_raw results f \<longrightarrow> 1 - s \<le> 1 / 1000000)) \<and>
             (max_raw results f = min_raw results f \<longrightarrow> s = 0)) \<and>
         (distinct (map (\<lambda>d. d ''_id'') results) \<longrightarrow>
            (\<forall>d\<in>set results. \<exists>i. d ''_id'' = Some i \<and>
               map_of m i = Some (d, (raw_score d f - min_raw results f) /
                 (max_raw results f - min_raw results f + 1 / 1000000))))"
proof -
  let ?mn = "min_raw results f" and ?mx = "max_raw results f"
  note loop = normalize_scores_loop [OF assms]
  have keys: "fst ` set m = {i. \<exists>d\<in>set results. d ''_id'' = Some i}"
    using normalize_loop_keys [OF loop] by simp
  have A: "\<exists>i. d ''_id'' = Some i \<and> i \<in> fst ` set m" if "d \<in> set results" for d
    using normalize_loop_ids [OF loop that] keys that by auto
  have entry: "d \<in> set results \<and> d ''_id'' = Some i \<and>
      s = (raw_score d f - ?mn) / (?mx - ?mn + epsilon)"
    if "(i, d, s) \<in> set m" for i d s
    using normalize_loop_entries [OF loop that] by auto
  have B: "d \<in> set results \<and> d ''_id'' = Some i \<and>
             s = (raw_score d f - ?mn) / (?mx - ?mn + 1 / 1000000) \<and>
             0 \<le> s \<and> s \<le> 1 \<and>
             (raw_score d f = ?mx \<longrightarrow>
                (\<forall>(i', d', s')\<in>set m. s' \<le> s) \<and>
                (1 \<le> ?mx - ?mn \<longrightarrow> 1 - s \<le> 1 / 1000000)) \<and>
             (?mx = ?mn \<longrightarrow> s = 0)"
    if mem: "(i, d, s) \<in> set m" for i d s
  proof -
    from entry [OF mem]
    have d: "d \<in> set results" "d ''_id'' = Some i"
      and s: "s = (raw_score d f - ?mn) / (?mx - ?mn + epsilon)" by auto
    note bounds = raw_bounds [OF d(1), of f]
    have le: "?mn \<le> ?mx" using bounds by simp
    have zero: "s = 0" if "?mx = ?mn"
      using that bounds s by simp
    have top: "s' \<le> s" if "raw_score d f = ?mx" "(i', d', s') \<in> set m" for i' d' s'
    proof -
      from entry [OF that(2)] have d': "d' \<in> set results"
        and s': "s' = (raw_score d' f - ?mn) / (?mx - ?mn + epsilon)" by auto
      from normalized_mono [OF le raw_bounds(2) [OF d', of f]] s s' that(1)
      show ?thesis by simp
    qed
    have close: "1 - s \<le> 1 / 1000000" if "raw_score d f = ?mx" "1 \<le> ?mx - ?mn"
      using normalized_max_close [OF that(2)] s that(1) by simp
    have "\<forall>(i', d', s')\<in>set m. s' \<le> s" if "raw_score d f = ?mx"
      using top [OF that] by auto
    then show ?thesis
      using d s normalized_range [OF bounds] zero close
      by (simp add: epsilon_def)
  qed
  have C: "\<exists>i. d ''_id'' = Some i \<and>
             map_of m i = Some (d, (raw_score d f - ?mn) / (?mx - ?mn + 1 / 1000000))"
    if "distinct (map (\<lambda>d. d ''_id'') results)" "d \<in> set results" for d
  proof -
    from normalize_loop_ids [OF loop that(2)] obtain i where i: "d ''_id'' = Some i" by auto
    from normalize_loop_lookup [OF loop that i] i show ?thesis
      by (simp add: epsilon_def)
  qed
  from A B C show ?thesis by blast
qed

lemma example_vector_scores:
  "normalize_scores [vec_A, vec_B] ''score'' =
     Inr [(VStr ''A'', vec_A, 400000 / 400001), (VStr ''B'', vec_B, 0)]"
  by (simp add: normalize_scores_def py_get_def raw_score_def vec_A_def vec_B_def epsilon_def)

lemma example_text_scores:
  "normalize_scores [txt_B, txt_C] ''score'' =
     Inr [(VStr ''B'', txt_B, 600000 / 600001), (VStr ''C'', txt_C, 0)]"
  by (simp add: normalize_scores_def py_get_def raw_score_def txt_B_def txt_C_def epsilon_def)

lemma example_single_scores:
  "normalize_scores [near_A] ''score'' = Inr [(VStr ''A'', near_A, 0)]"
  by (simp add: normalize_scores_def py_get_def raw_score_def near_A_def epsilon_def)

lemma example_spread_scores:
  "normalize_scores [near_A, far_B] ''score'' =
     Inr [(VStr ''A'', near_A, 0), (VStr ''B'', far_B, 2000000 / 2000001)]"
  by (simp add: normalize_scores_def py_get_def raw_score_def near_A_def far_B_def epsilon_def)

theorem normalize_scores_formula_witness:
  "[vec_A, vec_B] \<noteq> [] \<and>
   normalize_scores [vec_A, vec_B] ''score'' =
     Inr [(VStr ''A'', vec_A, 400000 / 400001), (VStr ''B'', vec_B, 0)] \<and>
   distinct (map (\<lambda>d. d ''_id'') [vec_A, vec_B]) \<and>
   max_raw [vec_A, vec_B] ''score'' = 9 / 10 \<and> min_raw [vec_A, vec_B] ''score'' = 1 / 2 \<and>
   raw_score vec_A ''score'' = max_raw [vec_A, vec_B] ''score'' \<and>
   (0 :: real) \<le> 400000 / 400001 \<and> (400000 / 400001 :: real) \<le> 1 \<and>
   map_of [(VStr ''A'', vec_A, 400000 / 400001 :: real), (VStr ''B'', vec_B, 0)] (VStr ''B'') =
     Some (vec_B, (raw_score vec_B ''score'' - 1 / 2) / (9 / 10 - 1 / 2 + 1 / 1000000)) \<and>
   [near_A] \<noteq> [] \<and>
   normalize_scores [near_A] ''score'' = Inr [(VStr ''A'', near_A, 0)] \<and>
   max_raw [near_A] ''score'' = min_raw [near_A] ''score'' \<and>
   [near_A, far_B] \<noteq> [] \<and>
   normalize_scores [near_A, far_B] ''score'' =
     Inr [(VStr ''A'', near_A, 0), (VStr ''B'', far_B, 2000000 / 2000001)] \<and>
   raw_score far_B ''score'' = max_raw [near_A, far_B] ''score'' \<and>
   1 \<le> max_raw [near_A, far_B] ''score'' - min_raw [near_A, far_B] ''score'' \<and>
   1 - 2000000 / 2000001 \<le> (1 / 1000000 :: real)"
proof -
  have ne: "[vec_A, vec_B] \<noteq> []" and ne1: "[near_A] \<noteq> []"
    and ne2: "[near_A, far_B] \<noteq> []" by simp_all
  have far: "raw_score far_B ''score'' = max_raw [near_A, far_B] ''score''"
    "1 \<le> max_raw [near_A, far_B] ''score'' - min_raw [near_A, far_B] ''score''"
    by (simp_all add: max_raw_def min_raw_def raw_score_def py_get_def near_A_def far_B_def)
  have mx: "max_raw [vec_A, vec_B] ''score'' = 9 / 10"
    and mn: "min_raw [vec_A, vec_B] ''score'' = 1 / 2"
    and ra: "raw_score vec_A ''score'' = 9 / 10"
    and rb: "raw_score vec_B ''score'' = 1 / 2"
    by (simp_all add: max_raw_def min_raw_def raw_score_def py_get_def vec_A_def vec_B_def)
  have eq: "max_raw [near_A] ''score'' = min_raw [near_A] ''score''"
    by (simp add: max_raw_def min_raw_def)
  have ids: "distinct (map (\<lambda>d. d ''_id'') [vec_A, vec_B])"
    by (simp add: vec_A_def vec_B_def)
  from normalize_scores_formula [OF ne example_vector_scores]
    normalize_scores_formula [OF ne1 example_single_scores]
    normalize_scores_formula [OF ne2 example_spread_scores]
    ne ne1 ne2 example_vector_scores example_single_scores example_spread_scores
    mx mn ra rb eq ids far
  show ?thesis by simp
qed

text \<open>
  As the claim states it, the document with the largest raw score comes out at 1 up to
  the epsilon. For raw scores 0 and \<open>1e-6\<close>, which are not all equal, it comes out at
  one half.
\<close>

theorem normalize_scores_max_counterexample:
  "normalize_scores [near_A, near_B] ''score'' =
     Inr [(VStr ''A'', near_A, 0), (VStr ''B'', near_B, 1 / 2)] \<and>
   raw_score near_B ''score'' = max_raw [near_A, near_B] ''score'' \<and>
   raw_score near_A ''score'' \<noteq> raw_score near_B ''score'' \<and>
   \<not> \<bar>1 / 2 - 1\<bar> \<le> (1 / 1000000 :: real)"
  by (simp add: normalize_scores_def py_get_def raw_score_def max_raw_def near_A_def near_B_def
        epsilon_def)

lemma normalize_scores_total:
  assumes "\<forall>r\<in>set results. (\<exists>i. r ''_id'' = Some i \<and> hashable i) \<and>
             (r f = None \<or> (\<exists>x. r f = Some (VNum x)))"
  shows "\<exists>m. normalize_scores results f = Inr m"
proof (cases "results = []")
  case True
  then show ?thesis by (simp add: normalize_scores_def)
next
  case False
  from assms have nums: "list_all is_num (map (\<lambda>r. py_get r f (VNum 0)) results)"
    by (auto simp: list_all_iff py_get_def)
  from assms have "\<forall>d\<in>set results. \<exists>i. d ''_id'' = Some i \<and> hashable i" by blast
  from normalize_loop_total [OF this] False nums show ?thesis
    by (simp add: normalize_scores_def Let_def)
qed

lemma example_bare_scores:
  "normalize_scores [vec_A, bare_D] ''score'' =
     Inr [(VStr ''A'', vec_A, 900000 / 900001), (VStr ''D'', bare_D, 0)]"
  by (simp add: normalize_scores_def py_get_def raw_score_def vec_A_def bare_D_def epsilon_def)

subsection \<open>Building the result records\<close>

lemma validate_str_id: "validate_str v = Some w \<Longrightarrow> w = v"
  by (cases v) auto

lemma validate_optional_str_id: "validate_optional_str v = Some w \<Longrightarrow> w = v"
  by (cases v) auto

lemma validate_optional_str_list_id: "validate_optional_str_list v = Some w \<Longrightarrow> w = v"
  by (cases v) (auto split: if_splits)

lemma validate_optional_int_cases:
  "validate_optional_int str_to_int v = Some w \<Longrightarrow>
     w = v \<or> (\<exists>y n. v = VStr y \<and> str_to_int y = Some n \<and> w = VNum (of_int n))"
  by (cases v) (auto split: if_splits option.splits)

lemma make_result_fields:
  assumes "make_result py_str str_to_int str_to_float d sc = Inr r"
  shows "id_field r = py_str (py_get d ''_id'' VNull) \<and>
         title r = py_get d ''title'' (VStr []) \<and>
         fullplot r = py_get d ''fullplot'' (VStr []) \<and>
         writers r = py_get d ''writers'' (VList []) \<and>
         cast r = py_get d ''cast'' (VList []) \<and>
         rated r = py_get d ''rated'' (VStr []) \<and>
         genres r = py_get d ''genres'' (VList []) \<and>
         validate_optional_int str_to_int (py_get d ''year'' VNull) = Some (year r) \<and>
         validate_float str_to_float sc = Some (score r)"
  using assms
  by (auto simp: make_result_def split: option.splits
        dest: validate_str_id validate_optional_str_id validate_optional_str_list_id)

lemma make_result_score:
  "make_result py_str str_to_int str_to_float d (VNum x) = Inr r \<Longrightarrow> score r = VNum x"
  using make_result_fields [of py_str str_to_int str_to_float d "VNum x" r] by simp

lemma make_result_score_free:
  "(\<exists>r. make_result py_str str_to_int str_to_float d (VNum x) = Inr r) =
   (\<exists>r. make_result py_str str_to_int str_to_float d (VNum y) = Inr r)"
  by (auto simp: make_result_def split: option.splits)

lemma collect_results_Inr:
  "collect_results f xs = Inr rs \<Longrightarrow> list_all2 (\<lambda>x r. f x = Inr r) xs rs"
  by (induction xs arbitrary: rs) (auto split: sum.splits)

lemma collect_results_total:
  "\<forall>x\<in>set xs. \<exists>r. f x = Inr r \<Longrightarrow> \<exists>rs. collect_results f xs = Inr rs"
  by (induction xs) (auto split: sum.splits)

lemma example_validation_error:
  "search_documents example_embedding (\<lambda>p. Inr [vec_A, odd_D]) example_str
       example_str_to_int example_str_to_float (example_query\<lparr>type := Some ''vector''\<rparr>) =
     (Inl ValidationError,
      [[VectorSearch ''vector_index'' ''embedding'' [] [1, 0] 40 2,
        Project display_fields ''vectorSearchScore'']])"
  by (simp add: search_documents_def build_pipeline_def build_filters_def example_query_def
        example_embedding_def make_result_def py_get_def vec_A_def odd_D_def
        example_str_to_int_def is_digit_def)

text \<open>
  CLAIM C10: a document \<open>d\<close> of the result set without the score field counts with the
  raw score 0, which takes part in the minimum and the maximum. If every document has a
  hashable \<open>_id\<close> and every score that is present is a number, the normaliser returns a
  mapping; in any mapping it returns, \<open>d\<close> has an entry under its identity and every
  entry holding \<open>d\<close> has the score \<open>(0 - min) / (max - min + 1e-6)\<close>. In a vector or
  text search the record of \<open>d\<close> is built with the score 0.0: it is built exactly when
  it would be built with any other number as the score, so the missing field raises
  nothing. A search that returns has one record for each document of the store's
  answer, in order, with the score 0.0 where the field is missing and the document's
  own score where it is a number; it returns whenever the record of every document can
  be built.
\<close>

theorem missing_score_counts_as_zero:
  assumes "d \<in> set results" and "d f = None"
  shows "raw_score d f = 0 \<and> min_raw results f \<le> 0 \<and> 0 \<le> max_raw results f \<and>
         ((\<forall>r\<in>set results. (\<exists>i. r ''_id'' = Some i \<and> hashable i) \<and>
                            (r f = None \<or> (\<exists>x. r f = Some (VNum x)))) \<longrightarrow>
            (\<exists>m. normalize_scores results f = Inr m)) \<and>
         (normalize_scores results f = Inr m \<longrightarrow>
            (\<exists>i. d ''_id'' = Some i \<and> i \<in> fst ` set m) \<and>
            (\<forall>i s. (i, d, s) \<in> set m \<longrightarrow>
               s = (0 - min_raw results f) /
                   (max_raw results f - min_raw results f + 1 / 1000000))) \<and>
         (f = ''score'' \<longrightarrow>
            (\<forall>r. make_result py_str str_to_int str_to_float d (py_get d ''score'' (VNum 0)) = Inr r
                   \<longrightarrow> score r = VNum 0) \<and>
            ((\<exists>r. make_result py_str str_to_int str_to_float d (py_get d ''score'' (VNum 0)) = Inr r) =
             (\<exists>r. make_result py_str str_to_int str_to_float d (VNum x) = Inr r)) \<and>
            (type q \<noteq> Some ''hybrid'' \<longrightarrow>
             build_pipeline q (generate_embedding (query q)) = Inr p \<longrightarrow>
             aggregate p = Inr results \<longrightarrow>
               (\<forall>rs calls.
                   search_documents generate_embedding aggregate py_str str_to_int str_to_float q =
                     (Inr rs, calls) \<longrightarrow>
                   length rs = length results \<and>
                   (\<forall>j<length results.
                       ((results ! j) ''score'' = None \<longrightarrow> score (rs ! j) = VNum 0) \<and>
                       (\<forall>y. (results ! j) ''score'' = Some (VNum y) \<longrightarrow>
                              score (rs ! j) = VNum y))) \<and>
               ((\<forall>r\<in>set results. \<exists>rec.
                    make_result py_str str_to_int str_to_float r (py_get r ''score'' (VNum 0)) =
                      Inr rec) \<longrightarrow>
                (\<exists>rs. search_documents generate_embedding aggregate py_str str_to_int
                         str_to_float q = (Inr rs, [p])))))"
proof -
  let ?mk = "\<lambda>r. make_result py_str str_to_int str_to_float r (py_get r ''score'' (VNum 0))"
  have raw: "raw_score d f = 0"
    using assms(2) by (simp add: raw_score_def py_get_def)
  have bounds: "min_raw results f \<le> 0" "0 \<le> max_raw results f"
    using raw_bounds [OF assms(1), of f] raw by simp_all
  have total: "\<exists>m. normalize_scores results f = Inr m"
    if "\<forall>r\<in>set results. (\<exists>i. r ''_id'' = Some i \<and> hashable i) \<and>
          (r f = None \<or> (\<exists>x. r f = Some (VNum x)))"
    using normalize_scores_total [OF that] .
  have ne: "results \<noteq> []" using assms(1) by auto
  have entry: "(\<exists>i. d ''_id'' = Some i \<and> i \<in> fst ` set m) \<and>
        (\<forall>i s. (i, d, s) \<in> set m \<longrightarrow>
           s = (0 - min_raw results f) / (max_raw results f - min_raw results f + 1 / 1000000))"
    if run: "normalize_scores results f = Inr m"
  proof -
    note loop = normalize_scores_loop [OF ne run]
    from normalize_loop_ids [OF loop assms(1)] obtain i where i: "d ''_id'' = Some i" by auto
    with normalize_loop_keys [OF loop] assms(1) have "i \<in> fst ` set m" by auto
    moreover have "s = (0 - min_raw results f) /
          (max_raw results f - min_raw results f + 1 / 1000000)"
      if "(j, d, s) \<in> set m" for j s
      using normalize_loop_entries [OF loop that] raw by (simp add: epsilon_def)
    ultimately show ?thesis using i by blast
  qed
  have dflt: "py_get d ''score'' (VNum 0) = VNum 0" if "f = ''score''"
    using that assms(2) by (simp add: py_get_def)
  have rec: "score r = VNum 0" if "f = ''score''" "?mk d = Inr r" for r
    using that make_result_score by (simp add: dflt)
  have free: "(\<exists>r. ?mk d = Inr r) =
      (\<exists>r. make_result py_str str_to_int str_to_float d (VNum x) = Inr r)" if "f = ''score''"
    using make_result_score_free [of py_str str_to_int str_to_float d 0 x] dflt [OF that]
    by simp
  have run: "search_documents generate_embedding aggregate py_str str_to_int str_to_float q =
      (collect_results ?mk results, [p])"
    if "type q \<noteq> Some ''hybrid''" "build_pipeline q (generate_embedding (query q)) = Inr p"
      "aggregate p = Inr results"
    using that by (simp add: search_documents_def)
  have records: "length rs = length results \<and>
      (\<forall>j<length results.
          ((results ! j) ''score'' = None \<longrightarrow> score (rs ! j) = VNum 0) \<and>
          (\<forall>y. (results ! j) ''score'' = Some (VNum y) \<longrightarrow> score (rs ! j) = VNum y))"
    if "collect_results ?mk results = Inr rs" for rs
  proof -
    from collect_results_Inr [OF that]
    have all: "list_all2 (\<lambda>r rec. ?mk r = Inr rec) results rs" .
    then have len: "length rs = length results" by (simp add: list_all2_lengthD)
    have "score (rs ! j) = VNum 0" if "j < length results" "(results ! j) ''score'' = None" for j
    proof -
      have "?mk (results ! j) = Inr (rs ! j)"
        using list_all2_nthD [OF all that(1)] by simp
      then show ?thesis using that(2) make_result_score by (simp add: py_get_def)
    qed
    moreover have "score (rs ! j) = VNum y"
      if "j < length results" "(results ! j) ''score'' = Some (VNum y)" for j y
    proof -
      have "?mk (results ! j) = Inr (rs ! j)"
        using list_all2_nthD [OF all that(1)] by simp
      then show ?thesis using that(2) make_result_score by (simp add: py_get_def)
    qed
    ultimately show ?thesis using len by blast
  qed
  have single: "(\<forall>rs calls.
        search_documents generate_embedding aggregate py_str str_to_int str_to_float q =
          (Inr rs, calls) \<longrightarrow>
        length rs = length results \<and>
        (\<forall>j<length results.
            ((results ! j) ''score'' = None \<longrightarrow> score (rs ! j) = VNum 0) \<and>
            (\<forall>y. (results ! j) ''score'' = Some (VNum y) \<longrightarrow> score (rs ! j) = VNum y))) \<and>
      ((\<forall>r\<in>set results. \<exists>rec. ?mk r = Inr rec) \<longrightarrow>
       (\<exists>rs. search_documents generate_embedding aggregate py_str str_to_int str_to_float q =
          (Inr rs, [p])))"
    if "type q \<noteq> Some ''hybrid''" "build_pipeline q (generate_embedding (query q)) = Inr p"
      "aggregate p = Inr results"
    using run [OF that] records collect_results_total [of results ?mk] by auto
  from raw bounds total entry rec free single show ?thesis by blast
qed

lemma example_single_search:
  "search_documents example_embedding (\<lambda>p. Inr [vec_A, bare_D]) example_str
       example_str_to_int example_str_to_float (example_query\<lparr>type := Some ''vector''\<rparr>) =
     (Inr [\<lparr> id_field = ''A'', title = VStr [], fullplot = VStr [], writers = VList [],
             cast = VList [], rated = VStr [], genres = VList [], year = VNull,
             score = VNum (9 / 10) \<rparr>,
           \<lparr> id_field = ''D'', title = VStr ''no score'', fullplot = VStr [], writers = VList [],
             cast = VList [], rated = VStr [], genres = VList [], year = VNull,
             score = VNum 0 \<rparr>],
      [[VectorSearch ''vector_index'' ''embedding'' [] [1, 0] 40 2,
        Project display_fields ''vectorSearchScore'']])"
  by (simp add: search_documents_def build_pipeline_def build_filters_def example_query_def
        example_embedding_def make_result_def py_get_def vec_A_def bare_D_def)

theorem missing_score_counts_as_zero_witness:
  "bare_D \<in> set [vec_A, bare_D] \<and> bare_D ''score'' = None \<and>
   min_raw [vec_A, bare_D] ''score'' = 0 \<and> max_raw [vec_A, bare_D] ''score'' = 9 / 10 \<and>
   normalize_scores [vec_A, bare_D] ''score'' =
     Inr [(VStr ''A'', vec_A, 900000 / 900001), (VStr ''D'', bare_D, 0)] \<and>
   type (example_query\<lparr>type := Some ''vector''\<rparr>) \<noteq> Some ''hybrid'' \<and>
   search_documents example_embedding (\<lambda>p. Inr [vec_A, bare_D]) example_str
       example_str_to_int example_str_to_float (example_query\<lparr>type := Some ''vector''\<rparr>) =
     (Inr [\<lparr> id_field = ''A'', title = VStr [], fullplot = VStr [], writers = VList [],
             cast = VList [], rated = VStr [], genres = VList [], year = VNull,
             score = VNum (9 / 10) \<rparr>,
           \<lparr> id_field = ''D'', title = VStr ''no score'', fullplot = VStr [], writers = VList [],
             cast = VList [], rated = VStr [], genres = VList [], year = VNull,
             score = VNum 0 \<rparr>],
      [[VectorSearch ''vector_index'' ''embedding'' [] [1, 0] 40 2,
        Project display_fields ''vectorSearchScore'']])"
proof -
  let ?q = "example_query\<lparr>type := Some ''vector''\<rparr>"
  let ?p = "[VectorSearch ''vector_index'' ''embedding'' [] [1, 0] 40 2,
             Project display_fields ''vectorSearchScore'']"
  have mem: "bare_D \<in> set [vec_A, bare_D]" by simp
  have none: "bare_D ''score'' = None" by (simp add: bare_D_def)
  have mn: "min_raw [vec_A, bare_D] ''score'' = 0"
    and mx: "max_raw [vec_A, bare_D] ''score'' = 9 / 10"
    by (simp_all add: min_raw_def max_raw_def raw_score_def py_get_def vec_A_def bare_D_def)
  have t: "type ?q \<noteq> Some ''hybrid''" by simp
  from missing_score_counts_as_zero [OF mem none, of _ example_str example_str_to_int
      example_str_to_float 0 ?q example_embedding ?p "\<lambda>p. Inr [vec_A, bare_D]"]
    mem none mn mx t example_bare_scores example_single_search
  show ?thesis by simp
qed

subsection \<open>The pipeline builder and the dispatch\<close>

text \<open>
  CLAIM C9: the filter dict holds a year predicate exactly when \<open>year_gt\<close> is present and
  not 0, and a genre predicate exactly when \<open>genre\<close> is present and not the empty string;
  it has no other key. A year bound of 0 and an empty genre give the same filters, and
  the same pipeline, as an absent one.
\<close>

theorem falsy_filters_dropped:
  "map_of (build_filters q) ''year'' =
     (case year_gt q of None \<Rightarrow> None | Some y \<Rightarrow> if y = 0 then None else Some (Gt y)) \<and>
   map_of (build_filters q) ''genres'' =
     (case genre q of None \<Rightarrow> None | Some g \<Rightarrow> if g = [] then None else Some (Equals g)) \<and>
   fst ` set (build_filters q) \<subseteq> {''year'', ''genres''} \<and>
   build_filters (q\<lparr>year_gt := Some 0\<rparr>) = build_filters (q\<lparr>year_gt := None\<rparr>) \<and>
   build_filters (q\<lparr>genre := Some []\<rparr>) = build_filters (q\<lparr>genre := None\<rparr>) \<and>
   build_pipeline (q\<lparr>year_gt := Some 0\<rparr>) e = build_pipeline (q\<lparr>year_gt := None\<rparr>) e \<and>
   build_pipeline (q\<lparr>genre := Some []\<rparr>) e = build_pipeline (q\<lparr>genre := None\<rparr>) e"
  by (auto simp: build_filters_def build_pipeline_def split: option.splits)

theorem falsy_filters_dropped_witness:
  "build_filters (example_query\<lparr>year_gt := Some 0, genre := Some []\<rparr>) = [] \<and>
   build_filters (example_query\<lparr>year_gt := Some 1990, genre := Some ''Crime''\<rparr>) =
     [(''year'', Gt 1990), (''genres'', Equals ''Crime'')]"
  using falsy_filters_dropped [of "example_query\<lparr>year_gt := Some 0, genre := Some []\<rparr>"]
  by (simp add: build_filters_def example_query_def)

text \<open>
  CLAIM C6: for a request of mode \<open>text\<close> whose filter dict is empty, no stage of the
  pipeline that is built is a \<open>$match\<close> stage, and none is the empty dict: with
  \<open>top_k = k\<close> the pipeline is the search stage, the projection and the limit, and nothing
  else.
\<close>

theorem text_pipeline_without_filter_stage:
  assumes "type q = Some ''text''" and "build_filters q = []"
  shows "(\<forall>p. build_pipeline q e = Inr p \<longrightarrow> (\<forall>s\<in>set p. \<not> is_match s \<and> s \<noteq> EmptyStage)) \<and>
         (\<forall>k. top_k q = Some k \<longrightarrow>
            build_pipeline q e =
              Inr [Search ''default'' (query q) [''fullplot'', ''genres'', ''title''] 2,
                   Project display_fields ''searchScore'',
                   Limit k])"
  using assms by (auto simp: build_pipeline_def split: option.splits)

theorem text_pipeline_without_filter_stage_witness:
  "type (example_query\<lparr>type := Some ''text''\<rparr>) = Some ''text'' \<and>
   build_filters (example_query\<lparr>type := Some ''text''\<rparr>) = [] \<and>
   build_pipeline (example_query\<lparr>type := Some ''text''\<rparr>) [1, 0] =
     Inr [Search ''default'' ''heist'' [''fullplot'', ''genres'', ''title''] 2,
          Project display_fields ''searchScore'',
          Limit 2] \<and>
   \<not> is_match (Search ''default'' ''heist'' [''fullplot'', ''genres'', ''title''] 2) \<and>
   \<not> is_match (Project display_fields ''searchScore'') \<and>
   \<not> is_match (Limit 2)"
proof -
  let ?q = "example_query\<lparr>type := Some ''text''\<rparr>"
  have t: "type ?q = Some ''text''" by simp
  have f: "build_filters ?q = []" by (simp add: build_filters_def example_query_def)
  have k: "top_k ?q = Some 2" by (simp add: example_query_def)
  from text_pipeline_without_filter_stage [OF t f, of "[1, 0]"] t f k show ?thesis
    by (simp add: example_query_def)
qed

text \<open>
  CLAIM C5: for a mode that is none of \<open>vector\<close>, \<open>text\<close> and \<open>hybrid\<close> (and an integer
  \<open>top_k\<close>), \<open>search_documents\<close> raises \<open>ValueError("Invalid search type")\<close>, as
  \<open>build_pipeline\<close> does, and has sent no pipeline to the store.
\<close>

theorem invalid_mode_raises_before_retrieval:
  assumes "type q \<noteq> Some ''vector''" and "type q \<noteq> Some ''text''"
    and "type q \<noteq> Some ''hybrid''" and "top_k q = Some k"
  shows "search_documents generate_embedding aggregate py_str str_to_int str_to_float q =
           (Inl (ValueError ''Invalid search type''), []) \<and>
         build_pipeline q e = Inl (ValueError ''Invalid search type'')"
  using assms by (simp add: search_documents_def build_pipeline_def)

theorem invalid_mode_raises_before_retrieval_witness:
  "type (example_query\<lparr>type := Some ''fuzzy''\<rparr>) \<noteq> Some ''vector'' \<and>
   type (example_query\<lparr>type := Some ''fuzzy''\<rparr>) \<noteq> Some ''text'' \<and>
   type (example_query\<lparr>type := Some ''fuzzy''\<rparr>) \<noteq> Some ''hybrid'' \<and>
   top_k (example_query\<lparr>type := Some ''fuzzy''\<rparr>) = Some 2 \<and>
   search_documents example_embedding example_store example_str example_str_to_int
       example_str_to_float (example_query\<lparr>type := Some ''fuzzy''\<rparr>) =
     (Inl (ValueError ''Invalid search type''), [])"
proof -
  let ?q = "example_query\<lparr>type := Some ''fuzzy''\<rparr>"
  have a: "type ?q \<noteq> Some ''vector''" and b: "type ?q \<noteq> Some ''text''"
    and c: "type ?q \<noteq> Some ''hybrid''" by simp_all
  have k: "top_k ?q = Some 2" by (simp add: example_query_def)
  from invalid_mode_raises_before_retrieval [OF a b c k] a b c k show ?thesis
    by simp
qed

subsection \<open>The merge of the two score dicts\<close>

lemma merge_vector_lookup:
  "distinct (map fst vs) \<Longrightarrow>
     map_of (merge_vector vs acc) i =
       (case map_of vs i of Some (d, s) \<Rightarrow> Some (d, s * vector_weight) | None \<Rightarrow> map_of acc i)"
  by (induction vs acc rule: merge_vector.induct)
     (auto simp: update_conv' map_of_eq_None_iff image_iff split: option.splits)

lemma merge_text_lookup:
  "distinct (map fst ts) \<Longrightarrow>
     map_of (merge_text ts acc) i =
       (case map_of ts i of
          None \<Rightarrow> map_of acc i
        | Some (dt, st) \<Rightarrow>
            (case map_of acc i of
               Some (d, s) \<Rightarrow> Some (d, s + st * text_weight)
             | None \<Rightarrow> Some (dt, st * text_weight)))"
proof (induction ts acc rule: merge_text.induct)
  case (1 result_map)
  then show ?case by simp
next
  case (2 j t rest result_map)
  from "2.prems" have d: "distinct (map fst rest)" and nj: "map_of rest j = None"
    by (auto simp: map_of_eq_None_iff)
  obtain dt st where t: "t = (dt, st)" by (cases t)
  show ?case
  proof (cases "map_of result_map j")
    case None
    with "2.IH" [OF d] nj t show ?thesis
      by (auto simp: update_conv' split: option.splits)
  next
    case (Some e)
    obtain d0 s0 where e: "e = (d0, s0)" by (cases e)
    with "2.IH" [OF d] nj t Some show ?thesis
      by (auto simp: update_conv' split: option.splits)
  qed
qed

lemma merge_vector_distinct:
  "distinct (map fst acc) \<Longrightarrow> distinct (map fst (merge_vector vs acc))"
  by (induction vs acc rule: merge_vector.induct) (auto simp: distinct_update)

lemma merge_text_distinct:
  "distinct (map fst acc) \<Longrightarrow> distinct (map fst (merge_text ts acc))"
  by (induction ts acc rule: merge_text.induct) (auto simp: distinct_update split: option.splits)

lemma merge_results_distinct: "distinct (map fst (merge_results vs ts))"
  by (simp add: merge_results_def merge_text_distinct merge_vector_distinct)

lemma merge_results_lookup:
  assumes "distinct (map fst vs)" "distinct (map fst ts)"
  shows "map_of (merge_results vs ts) i =
     (case (map_of vs i, map_of ts i) of
        (None, None) \<Rightarrow> None
      | (Some (dv, sv), None) \<Rightarrow> Some (dv, 0.6 * sv + 0.4 * 0)
      | (None, Some (dt, st)) \<Rightarrow> Some (dt, 0.6 * 0 + 0.4 * st)
      | (Some (dv, sv), Some (dt, st)) \<Rightarrow> Some (dv, 0.6 * sv + 0.4 * st))"
  using assms
  by (simp add: merge_results_def merge_text_lookup merge_vector_lookup
        vector_weight_def text_weight_def split: option.splits)

lemma keyed_update:
  "keyed m \<Longrightarrow> d ''_id'' = Some i \<Longrightarrow> keyed (AList.update i (d, s) m)"
  unfolding keyed_def by (auto dest: update_entry)

lemma merge_vector_keyed:
  "keyed vs \<Longrightarrow> keyed acc \<Longrightarrow> keyed (merge_vector vs acc)"
proof (induction vs acc rule: merge_vector.induct)
  case (1 result_map)
  then show ?case by simp
next
  case (2 i v rest result_map)
  from "2.prems"(1) have "fst v ''_id'' = Some i" "keyed rest"
    by (auto simp: keyed_def)
  with "2.IH" "2.prems"(2) show ?case by (simp add: keyed_update)
qed

lemma merge_text_keyed:
  "keyed ts \<Longrightarrow> keyed acc \<Longrightarrow> keyed (merge_text ts acc)"
proof (induction ts acc rule: merge_text.induct)
  case (1 result_map)
  then show ?case by simp
next
  case (2 i t rest result_map)
  from "2.prems"(1) have t: "fst t ''_id'' = Some i" and rest: "keyed rest"
    by (auto simp: keyed_def)
  show ?case
  proof (cases "map_of result_map i")
    case None
    with "2.IH" [OF rest] "2.prems"(2) t show ?thesis by (simp add: keyed_update)
  next
    case (Some e)
    obtain d s where e: "e = (d, s)" by (cases e)
    from Some e have "(i, d, s) \<in> set result_map" by (simp add: map_of_SomeD)
    with "2.prems"(2) have "d ''_id'' = Some i" by (auto simp: keyed_def)
    with "2.IH" [OF rest] "2.prems"(2) Some e show ?thesis by (simp add: keyed_update)
  qed
qed

lemma normalize_scores_keyed:
  "normalize_scores rs f = Inr m \<Longrightarrow> keyed m"
proof (cases "rs = []")
  case True
  assume "normalize_scores rs f = Inr m"
  with True show ?thesis by (simp add: normalize_scores_def keyed_def)
next
  case False
  assume "normalize_scores rs f = Inr m"
  from normalize_loop_entries [OF normalize_scores_loop [OF False this]]
  show ?thesis by (auto simp: keyed_def)
qed

lemma normalize_scores_distinct:
  "normalize_scores rs f = Inr m \<Longrightarrow> distinct (map fst m)"
proof (cases "rs = []")
  case True
  assume "normalize_scores rs f = Inr m"
  with True show ?thesis by (simp add: normalize_scores_def)
next
  case False
  assume "normalize_scores rs f = Inr m"
  from normalize_loop_distinct [OF normalize_scores_loop [OF False this]]
  show ?thesis by simp
qed

lemma distinct_map_insort_key:
  "distinct (map g (insort_key f x xs)) = (g x \<notin> g ` set xs \<and> distinct (map g xs))"
  by (induction xs) (auto simp: set_insort_key)

lemma distinct_map_sort_key:
  "distinct (map g (sort_key f xs)) = distinct (map g xs)"
  by (induction xs) (auto simp: distinct_map_insort_key)

lemma keyed_ids:
  "keyed m \<Longrightarrow> map (\<lambda>e. fst e ''_id'') (map snd m) = map (Some \<circ> fst) m"
  by (induction m) (auto simp: keyed_def)

lemma sort_by_score_sorted:
  "sorted_wrt (\<lambda>a b. snd b \<le> snd a) (sort_by_score es)"
proof -
  have "sorted (map (\<lambda>x. - snd x) (sort_by_score es))"
    unfolding sort_by_score_def by (rule sorted_sort_key)
  then show ?thesis by (simp add: sorted_map)
qed

lemma py_slice_to_prefix: "\<exists>n. py_slice_to xs k = take n xs"
  by (cases k) (auto intro: exI [of _ "length xs"])

lemma hybrid_ranked_props:
  assumes "hybrid_ranked vr tr = Inr ranked"
  shows "distinct (map (\<lambda>e. fst e ''_id'') ranked)"
    and "\<forall>e\<in>set ranked. fst e ''_id'' \<noteq> None"
    and "sorted_wrt (\<lambda>a b. snd b \<le> snd a) ranked"
proof -
  from assms obtain vs ts where vs: "normalize_scores vr ''score'' = Inr vs"
    and ts: "normalize_scores tr ''score'' = Inr ts"
    and ranked: "ranked = sort_by_score (map snd (merge_results vs ts))"
    by (auto simp: hybrid_ranked_def split: sum.splits)
  let ?m = "merge_results vs ts"
  have k: "keyed ?m"
    unfolding merge_results_def
    by (intro merge_text_keyed merge_vector_keyed normalize_scores_keyed [OF vs]
          normalize_scores_keyed [OF ts]) (simp add: keyed_def)
  have "distinct (map (Some \<circ> fst) ?m)"
    using merge_results_distinct [of vs ts] by (simp add: distinct_map comp_def inj_on_def)
  then show "distinct (map (\<lambda>e. fst e ''_id'') ranked)"
    unfolding ranked sort_by_score_def
    using keyed_ids [OF k] by (simp add: distinct_map_sort_key del: map_map)
  show "\<forall>e\<in>set ranked. fst e ''_id'' \<noteq> None"
    using k unfolding ranked sort_by_score_def keyed_def by auto
  show "sorted_wrt (\<lambda>a b. snd b \<le> snd a) ranked"
    unfolding ranked by (rule sort_by_score_sorted)
qed

lemma list_all2_right:
  "list_all2 P xs ys \<Longrightarrow> y \<in> set ys \<Longrightarrow> \<exists>x\<in>set xs. P x y"
  by (induction rule: list_all2_induct) auto

lemma hybrid_merge_entries:
  assumes "normalize_scores vr ''score'' = Inr vs" and "normalize_scores tr ''score'' = Inr ts"
    and "hybrid_merge py_str str_to_int str_to_float vr tr k = Inr results"
    and "r \<in> set results"
  shows "\<exists>j d s. map_of (merge_results vs ts) j = Some (d, s) \<and> d ''_id'' = Some j \<and>
           make_result py_str str_to_int str_to_float d (VNum s) = Inr r"
proof -
  let ?m = "merge_results vs ts"
  let ?mk = "\<lambda>e. make_result py_str str_to_int str_to_float (fst e) (VNum (snd e))"
  from assms(1-3) have res:
    "collect_results ?mk (py_slice_to (sort_by_score (map snd ?m)) k) = Inr results"
    by (auto simp: hybrid_merge_def hybrid_ranked_def)
  from py_slice_to_prefix obtain n
    where n: "py_slice_to (sort_by_score (map snd ?m)) k = take n (sort_by_score (map snd ?m))"
    by blast
  from collect_results_Inr [OF res]
  have "list_all2 (\<lambda>e r. ?mk e = Inr r) (take n (sort_by_score (map snd ?m))) results"
    unfolding n .
  from list_all2_right [OF this assms(4)]
  obtain e where e: "e \<in> set (take n (sort_by_score (map snd ?m)))"
    and r: "?mk e = Inr r"
    by blast
  from e have "e \<in> snd ` set ?m"
    by (auto dest!: in_set_takeD simp: sort_by_score_def)
  then obtain j where j: "(j, fst e, snd e) \<in> set ?m" by force
  have "keyed ?m"
    unfolding merge_results_def
    by (intro merge_text_keyed merge_vector_keyed normalize_scores_keyed [OF assms(1)]
          normalize_scores_keyed [OF assms(2)]) (simp add: keyed_def)
  with j have "fst e ''_id'' = Some j" by (auto simp: keyed_def)
  moreover from j have "map_of ?m j = Some (fst e, snd e)"
    by (simp add: merge_results_distinct)
  ultimately show ?thesis using r by blast
qed

text \<open>
  CLAIM C1: for two score dicts (their keys pairwise distinct, as the keys of a dict
  are), the merged entry of an identity has the score 0.6 times its vector score plus
  0.4 times its text score, a score of 0 standing for a set the identity is absent from;
  the entry holds the vector document when the identity is in the vector set, the text
  document otherwise. Every record that the hybrid search returns belongs to one merged
  entry: its \<open>id\<close> is \<open>str\<close> of the identity, its score is the combined score, and its
  title, plot, writers, cast, rating, genres and year are those of the entry's document
  (the default where the document has none, the year as a number where the document has
  it as a string that parses), which is the vector document for an identity of the
  vector set.
\<close>

theorem merge_results_weighted_sum:
  assumes "distinct (map fst vs)" and "distinct (map fst ts)"
  shows "map_of (merge_results vs ts) i =
           (case (map_of vs i, map_of ts i) of
              (None, None) \<Rightarrow> None
            | (Some (dv, sv), None) \<Rightarrow> Some (dv, 0.6 * sv + 0.4 * 0)
            | (None, Some (dt, st)) \<Rightarrow> Some (dt, 0.6 * 0 + 0.4 * st)
            | (Some (dv, sv), Some (dt, st)) \<Rightarrow> Some (dv, 0.6 * sv + 0.4 * st)) \<and>
         (normalize_scores vr ''score'' = Inr vs \<longrightarrow> normalize_scores tr ''score'' = Inr ts \<longrightarrow>
          hybrid_merge py_str str_to_int str_to_float vr tr k = Inr results \<longrightarrow>
            (\<forall>r\<in>set results. \<exists>j d s.
                map_of (merge_results vs ts) j = Some (d, s) \<and> d ''_id'' = Some j \<and>
                (\<forall>dv sv. map_of vs j = Some (dv, sv) \<longrightarrow> d = dv) \<and>
                id_field r = py_str j \<and>
                title r = py_get d ''title'' (VStr []) \<and>
                fullplot r = py_get d ''fullplot'' (VStr []) \<and>
                writers r = py_get d ''writers'' (VList []) \<and>
                cast r = py_get d ''cast'' (VList []) \<and>
                rated r = py_get d ''rated'' (VStr []) \<and>
                genres r = py_get d ''genres'' (VList []) \<and>
                (year r = py_get d ''year'' VNull \<or>
                 (\<exists>y n. py_get d ''year'' VNull = VStr y \<and> str_to_int y = Some n \<and>
                        year r = VNum (of_int n))) \<and>
                score r = VNum s))"
proof -
  note lookup = merge_results_lookup [OF assms]
  have fields: "\<exists>j d s.
      map_of (merge_results vs ts) j = Some (d, s) \<and> d ''_id'' = Some j \<and>
      (\<forall>dv sv. map_of vs j = Some (dv, sv) \<longrightarrow> d = dv) \<and>
      id_field r = py_str j \<and>
      title r = py_get d ''title'' (VStr []) \<and>
      fullplot r = py_get d ''fullplot'' (VStr []) \<and>
      writers r = py_get d ''writers'' (VList []) \<and>
      cast r = py_get d ''cast'' (VList []) \<and>
      rated r = py_get d ''rated'' (VStr []) \<and>
      genres r = py_get d ''genres'' (VList []) \<and>
      (year r = py_get d ''year'' VNull \<or>
       (\<exists>y n. py_get d ''year'' VNull = VStr y \<and> str_to_int y = Some n \<and>
              year r = VNum (of_int n))) \<and>
      score r = VNum s"
    if vs: "normalize_scores vr ''score'' = Inr vs" and ts: "normalize_scores tr ''score'' = Inr ts"
      and run: "hybrid_merge py_str str_to_int str_to_float vr tr k = Inr results"
      and r: "r \<in> set results" for r
  proof -
    from hybrid_merge_entries [OF vs ts run r] obtain j d s
      where e: "map_of (merge_results vs ts) j = Some (d, s)" and id: "d ''_id'' = Some j"
        and mk: "make_result py_str str_to_int str_to_float d (VNum s) = Inr r"
      by blast
    have pref: "d = dv" if "map_of vs j = Some (dv, sv)" for dv sv
      using lookup [of j] e that by (auto split: option.splits)
    note f = make_result_fields [OF mk]
    from f have yr: "year r = py_get d ''year'' VNull \<or>
        (\<exists>y n. py_get d ''year'' VNull = VStr y \<and> str_to_int y = Some n \<and>
               year r = VNum (of_int n))"
      using validate_optional_int_cases [of str_to_int "py_get d ''year'' VNull" "year r"]
      by blast
    have idf: "id_field r = py_str j" using f id by (simp add: py_get_def)
    have sc: "score r = VNum s" using make_result_score [OF mk] .
    from e id pref idf f yr sc show ?thesis by blast
  qed
  from lookup [of i] fields show ?thesis by blast
qed

lemma example_ranked:
  "hybrid_ranked [vec_A, vec_B] [txt_B, txt_C] =
     Inr [(vec_A, 240000 / 400001), (vec_B, 240000 / 600001), (txt_C, 0)]"
  by (simp add: hybrid_ranked_def normalize_scores_def py_get_def raw_score_def epsilon_def
        merge_results_def sort_by_score_def vector_weight_def text_weight_def
        vec_A_def vec_B_def txt_B_def txt_C_def)

lemma example_merge:
  "hybrid_merge example_str example_str_to_int example_str_to_float
       [vec_A, vec_B] [txt_B, txt_C] (Some 2) =
     Inr [\<lparr> id_field = ''A'', title = VStr [], fullplot = VStr [], writers = VList [],
            cast = VList [], rated = VStr [], genres = VList [], year = VNull,
            score = VNum (240000 / 400001) \<rparr>,
          \<lparr> id_field = ''B'', title = VStr ''vector copy'', fullplot = VStr [],
            writers = VList [], cast = VList [], rated = VStr [], genres = VList [],
            year = VNull, score = VNum (240000 / 600001) \<rparr>]"
  unfolding hybrid_merge_def example_ranked
  by (simp add: make_result_def py_get_def vec_A_def vec_B_def)

theorem merge_results_weighted_sum_witness:
  "distinct (map fst [(VStr ''A'', vec_A, 400000 / 400001 :: real), (VStr ''B'', vec_B, 0)]) \<and>
   distinct (map fst [(VStr ''B'', txt_B, 600000 / 600001 :: real), (VStr ''C'', txt_C, 0)]) \<and>
   normalize_scores [vec_A, vec_B] ''score'' =
     Inr [(VStr ''A'', vec_A, 400000 / 400001), (VStr ''B'', vec_B, 0)] \<and>
   normalize_scores [txt_B, txt_C] ''score'' =
     Inr [(VStr ''B'', txt_B, 600000 / 600001), (VStr ''C'', txt_C, 0)] \<and>
   hybrid_merge example_str example_str_to_int example_str_to_float
       [vec_A, vec_B] [txt_B, txt_C] (Some 2) =
     Inr [\<lparr> id_field = ''A'', title = VStr [], fullplot = VStr [], writers = VList [],
            cast = VList [], rated = VStr [], genres = VList [], year = VNull,
            score = VNum (240000 / 400001) \<rparr>,
          \<lparr> id_field = ''B'', title = VStr ''vector copy'', fullplot = VStr [],
            writers = VList [], cast = VList [], rated = VStr [], genres = VList [],
            year = VNull, score = VNum (240000 / 600001) \<rparr>] \<and>
   map_of (merge_results [(VStr ''A'', vec_A, 400000 / 400001), (VStr ''B'', vec_B, 0)]
             [(VStr ''B'', txt_B, 600000 / 600001), (VStr ''C'', txt_C, 0)]) (VStr ''B'') =
     Some (vec_B, 0.6 * 0 + 0.4 * (600000 / 600001)) \<and>
   py_get vec_B ''title'' (VStr []) = VStr ''vector copy'' \<and>
   py_get txt_B ''title'' (VStr []) = VStr ''text copy''"
proof -
  let ?vs = "[(VStr ''A'', vec_A, 400000 / 400001 :: real), (VStr ''B'', vec_B, 0)]"
  let ?ts = "[(VStr ''B'', txt_B, 600000 / 600001 :: real), (VStr ''C'', txt_C, 0)]"
  have dv: "distinct (map fst ?vs)" and dt: "distinct (map fst ?ts)" by simp_all
  have t: "py_get vec_B ''title'' (VStr []) = VStr ''vector copy''"
    "py_get txt_B ''title'' (VStr []) = VStr ''text copy''"
    by (simp_all add: py_get_def vec_B_def txt_B_def)
  from merge_results_weighted_sum [OF dv dt, of "VStr ''B''"] dv dt t
    example_vector_scores example_text_scores example_merge
  show ?thesis by simp
qed

subsection \<open>The hybrid search, end to end\<close>

lemma list_all2_map_eq:
  "list_all2 P xs ys \<Longrightarrow> (\<And>x y. P x y \<Longrightarrow> g y = h x) \<Longrightarrow> map g ys = map h xs"
  by (induction rule: list_all2_induct) auto

lemma hybrid_search_results:
  assumes "type q = Some ''hybrid''"
    and "search_documents generate_embedding aggregate py_str str_to_int str_to_float q =
           (Inr results, calls)"
  obtains vr tr ranked where "hybrid_ranked vr tr = Inr ranked"
    and "list_all2
           (\<lambda>e r. make_result py_str str_to_int str_to_float (fst e) (VNum (snd e)) = Inr r)
           (py_slice_to ranked (top_k q)) results"
proof -
  from assms obtain vr tr ranked where "hybrid_ranked vr tr = Inr ranked"
    and "collect_results
           (\<lambda>e. make_result py_str str_to_int str_to_float (fst e) (VNum (snd e)))
           (py_slice_to ranked (top_k q)) = Inr results"
    by (auto simp: search_documents_def hybrid_search_def hybrid_merge_def Let_def
          split: sum.splits)
  with that collect_results_Inr show ?thesis by blast
qed

lemma example_search:
  "search_documents example_embedding example_store example_str example_str_to_int
       example_str_to_float example_query =
     (Inr [\<lparr> id_field = ''A'', title = VStr [], fullplot = VStr [], writers = VList [],
             cast = VList [], rated = VStr [], genres = VList [], year = VNull,
             score = VNum (240000 / 400001) \<rparr>,
           \<lparr> id_field = ''B'', title = VStr ''vector copy'', fullplot = VStr [],
             writers = VList [], cast = VList [], rated = VStr [], genres = VList [],
             year = VNull, score = VNum (240000 / 600001) \<rparr>],
      [[VectorSearch ''vector_index'' ''embedding'' [] [1, 0] 40 2,
        Project display_fields ''vectorSearchScore''],
       [Search ''default'' ''heist'' [''fullplot'', ''genres'', ''title''] 2,
        Project display_fields ''searchScore'',
        Limit 2]])"
  by (simp add: search_documents_def hybrid_search_def example_merge
        build_pipeline_def build_filters_def example_query_def example_embedding_def)



text \<open>
  CLAIM C4: the records a hybrid search returns carry numeric scores and are in
  non-increasing order of score.
\<close>

theorem hybrid_results_sorted:
  assumes "type q = Some ''hybrid''"
    and "search_documents generate_embedding aggregate py_str str_to_int str_to_float q =
           (Inr results, calls)"
  shows "sorted_wrt (\<lambda>a b. num_of (score b) \<le> num_of (score a)) results \<and>
         (\<forall>r\<in>set results. is_num (score r))"
proof -
  let ?mk = "\<lambda>e. make_result py_str str_to_int str_to_float (fst e) (VNum (snd e))"
  from hybrid_search_results [OF assms] obtain vr tr ranked
    where r0: "hybrid_ranked vr tr = Inr ranked"
      and res: "list_all2 (\<lambda>e r. ?mk e = Inr r) (py_slice_to ranked (top_k q)) results"
    by blast
  from py_slice_to_prefix obtain n where n: "py_slice_to ranked (top_k q) = take n ranked"
    by blast
  note all = res [unfolded n]
  have sc: "map score results = map (\<lambda>e. VNum (snd e)) (take n ranked)"
    using list_all2_map_eq [OF all, of score "\<lambda>e. VNum (snd e)"] make_result_score by blast
  have "sorted_wrt (\<lambda>a b. snd b \<le> snd a) (take n ranked)"
    using hybrid_ranked_props(3) [OF r0] by (rule sorted_wrt_take)
  then have "sorted_wrt (\<lambda>a b. num_of b \<le> num_of a) (map (\<lambda>e. VNum (snd e)) (take n ranked))"
    by (simp add: sorted_wrt_map)
  then have "sorted_wrt (\<lambda>a b. num_of b \<le> num_of a) (map score results)"
    by (simp only: sc)
  then have sorted: "sorted_wrt (\<lambda>a b. num_of (score b) \<le> num_of (score a)) results"
    by (simp add: sorted_wrt_map)
  have "is_num (score r)" if "r \<in> set results" for r
  proof -
    from that have "score r \<in> set (map score results)" by simp
    then show ?thesis unfolding sc by auto
  qed
  with sorted show ?thesis by blast
qed

theorem hybrid_results_sorted_witness:
  "type example_query = Some ''hybrid'' \<and>
   map score (projr (fst (search_documents example_embedding example_store example_str
      example_str_to_int example_str_to_float example_query))) =
     [VNum (240000 / 400001), VNum (240000 / 600001)] \<and>
   sorted_wrt (\<lambda>a b. num_of b \<le> num_of a) [VNum (240000 / 400001), VNum (240000 / 600001)]"
proof -
  have t: "type example_query = Some ''hybrid''"
    by (simp add: example_query_def)
  from hybrid_results_sorted [OF t example_search] t example_search
  show ?thesis by simp
qed

text \<open>
  CLAIM C7, as the code has it: in the scenario the merged scores are
  \<open>0.6 * (0.4 / 0.400001)\<close> for A, \<open>0.4 * (0.6 / 0.600001)\<close> for B and 0 for C, less than
  \<open>2e-6\<close> away from 0.6 and 0.4; the order is A, B, C, and \<open>top_k = 2\<close> returns A and B
  only.
\<close>

theorem scenario_ranking:
  "hybrid_ranked [vec_A, vec_B] [txt_B, txt_C] =
     Inr [(vec_A, 0.6 * (400000 / 400001)), (vec_B, 0.4 * (600000 / 600001)), (txt_C, 0)] \<and>
   \<bar>0.6 * (400000 / 400001) - 0.6\<bar> < (2 / 1000000 :: real) \<and>
   \<bar>0.4 * (600000 / 600001) - 0.4\<bar> < (1 / 1000000 :: real) \<and>
   hybrid_merge py_str str_to_int str_to_float [vec_A, vec_B] [txt_B, txt_C] (Some 3) =
     Inr [\<lparr> id_field = py_str (VStr ''A''), title = VStr [], fullplot = VStr [],
            writers = VList [], cast = VList [], rated = VStr [], genres = VList [],
            year = VNull, score = VNum (0.6 * (400000 / 400001)) \<rparr>,
          \<lparr> id_field = py_str (VStr ''B''), title = VStr ''vector copy'', fullplot = VStr [],
            writers = VList [], cast = VList [], rated = VStr [], genres = VList [],
            year = VNull, score = VNum (0.4 * (600000 / 600001)) \<rparr>,
          \<lparr> id_field = py_str (VStr ''C''), title = VStr [], fullplot = VStr [],
            writers = VList [], cast = VList [], rated = VStr [], genres = VList [],
            year = VNull, score = VNum 0 \<rparr>] \<and>
   hybrid_merge py_str str_to_int str_to_float [vec_A, vec_B] [txt_B, txt_C] (Some 2) =
     Inr [\<lparr> id_field = py_str (VStr ''A''), title = VStr [], fullplot = VStr [],
            writers = VList [], cast = VList [], rated = VStr [], genres = VList [],
            year = VNull, score = VNum (0.6 * (400000 / 400001)) \<rparr>,
          \<lparr> id_field = py_str (VStr ''B''), title = VStr ''vector copy'', fullplot = VStr [],
            writers = VList [], cast = VList [], rated = VStr [], genres = VList [],
            year = VNull, score = VNum (0.4 * (600000 / 600001)) \<rparr>]"
  unfolding hybrid_merge_def example_ranked
  by (simp add: make_result_def py_get_def vec_A_def vec_B_def txt_C_def)

text \<open>
  The scores of the scenario are not 0.6, 0.4 and 0: the epsilon in the denominator
  keeps the largest normalised score of each set below 1.
\<close>

theorem scenario_exact_scores_counterexample:
  "(case hybrid_ranked [vec_A, vec_B] [txt_B, txt_C] of
      Inl e \<Rightarrow> []
    | Inr ranked \<Rightarrow> map snd ranked) \<noteq> [0.6, 0.4, 0]"
  by (simp add: example_ranked)

end
